theory Spec2Isabelle
  imports Main
begin

section \<open>Python values and exceptions\<close>

text \<open>
  The client is Python: arguments, query parameters and decoded JSON bodies are
  dynamically typed.  The values that reach the code are modelled by one datatype.
  A \<open>string\<close> stands for a Python \<open>str\<close> whose code points are below 256, one
  \<open>char\<close> per code point.  JSON numbers with a fraction or an exponent decode to
  floats; floats are left out of the model.  A \<open>dict\<close> is an association list in
  insertion order (Python 3.7 and later keep that order), read with \<open>map_of\<close>.
\<close>

text \<open>The two enumerations of \<^verbatim>\<open>enums.py\<close>, with the \<^verbatim>\<open>.value\<close> of each member.\<close>

datatype UserLookupType = UserLookupType_ID | UserLookupType_Name

datatype BanLookupType = BanLookupType_Name | BanLookupType_IP

fun UserLookupType_value :: "UserLookupType \<Rightarrow> string" where
  "UserLookupType_value UserLookupType_ID = ''id''"
| "UserLookupType_value UserLookupType_Name = ''name''"

fun BanLookupType_value :: "BanLookupType \<Rightarrow> string" where
  "BanLookupType_value BanLookupType_Name = ''name''"
| "BanLookupType_value BanLookupType_IP = ''ip''"

datatype pyval =
    PyNone
  | PyBool bool
  | PyInt int
  | PyStr string
  | PyList "pyval list"
  | PyDict "(string \<times> pyval) list"
  | PyUserLookup UserLookupType
  | PyBanLookup BanLookupType

text \<open>
  The exceptions that the code raises or lets through.  \<open>ApiException\<close> is the
  typed error of the package, with its message; the others are Python's built-in
  exceptions, which the package neither raises itself nor catches.
\<close>

datatype exc = ApiException string | TypeError | KeyError | ValueError

subsection \<open>\<^verbatim>\<open>str()\<close> and \<^verbatim>\<open>repr()\<close>\<close>

text \<open>\<^verbatim>\<open>str\<close> of an \<open>int\<close>: the decimal digits, after a minus sign for a negative number.\<close>

definition digit_char :: "int \<Rightarrow> char" where
  "digit_char d = (''0123456789'') ! nat (d mod 10)"

function nat_str :: "int \<Rightarrow> string" where
  "nat_str n = (if n < 10 then [digit_char n] else nat_str (n div 10) @ [digit_char (n mod 10)])"
  by pat_completeness auto
termination
  by (relation "measure nat") auto

declare nat_str.simps [simp del]

definition int_str :: "int \<Rightarrow> string" where
  "int_str i = (if i < 0 then CHR ''-'' # nat_str (- i) else nat_str i)"

definition hex_lower :: "nat \<Rightarrow> char" where
  "hex_lower n = (''0123456789abcdef'') ! (n mod 16)"

definition hex_upper :: "nat \<Rightarrow> char" where
  "hex_upper n = (''0123456789ABCDEF'') ! (n mod 16)"

text \<open>
  \<^verbatim>\<open>repr\<close> of a \<open>str\<close>: single quotes unless the text has a single quote and no
  double quote; backslash and the chosen quote are escaped, tab, newline and
  carriage return have their letter escapes, and every other code point that is
  not printable is written \<^verbatim>\<open>\xhh\<close>.
\<close>

definition printable :: "char \<Rightarrow> bool" where
  "printable c = (let n = (of_char c :: nat) in
     (32 \<le> n \<and> n < 127) \<or> (161 \<le> n \<and> n \<noteq> 173))"

definition repr_char :: "char \<Rightarrow> char \<Rightarrow> string" where
  "repr_char q c =
     (if c = q \<or> c = CHR 0x5C then [CHR 0x5C, c]
      else if c = CHR 0x09 then [CHR 0x5C, CHR ''t'']
      else if c = CHR 0x0A then [CHR 0x5C, CHR ''n'']
      else if c = CHR 0x0D then [CHR 0x5C, CHR ''r'']
      else if printable c then [c]
      else [CHR 0x5C, CHR ''x'', hex_lower (of_char c div 16), hex_lower (of_char c mod 16)])"

definition str_repr :: "string \<Rightarrow> string" where
  "str_repr s =
     (let q = (if CHR 0x27 \<in> set s \<and> CHR 0x22 \<notin> set s then CHR 0x22 else CHR 0x27)
      in [q] @ concat (map (repr_char q) s) @ [q])"

text \<open>\<^verbatim>\<open>sep.join(parts)\<close> for parts that are already strings.\<close>

fun join :: "string \<Rightarrow> string list \<Rightarrow> string" where
  "join sep [] = []"
| "join sep [x] = x"
| "join sep (x # y # ys) = x @ sep @ join sep (y # ys)"

fun py_repr :: "pyval \<Rightarrow> string" where
  "py_repr PyNone = ''None''"
| "py_repr (PyBool b) = (if b then ''True'' else ''False'')"
| "py_repr (PyInt i) = int_str i"
| "py_repr (PyStr s) = str_repr s"
| "py_repr (PyList xs) = ''['' @ join '', '' (map py_repr xs) @ '']''"
| "py_repr (PyDict kvs) =
     ''{'' @ join '', '' (map (\<lambda>kv. str_repr (fst kv) @ '': '' @ py_repr (snd kv)) kvs) @ ''}''"
| "py_repr (PyUserLookup l) =
     ''<UserLookupType.'' @ (case l of UserLookupType_ID \<Rightarrow> ''ID'' | UserLookupType_Name \<Rightarrow> ''Name'')
       @ '': '' @ str_repr (UserLookupType_value l) @ ''>''"
| "py_repr (PyBanLookup l) =
     ''<BanLookupType.'' @ (case l of BanLookupType_Name \<Rightarrow> ''Name'' | BanLookupType_IP \<Rightarrow> ''IP'')
       @ '': '' @ str_repr (BanLookupType_value l) @ ''>''"

text \<open>
  \<^verbatim>\<open>str(v)\<close>, which is also what \<^verbatim>\<open>"{0}".format(v)\<close> inserts: a \<open>str\<close> is taken
  as it is, a member of a plain \<open>Enum\<close> is \<^verbatim>\<open>ClassName.MemberName\<close>, and every other
  value is its \<^verbatim>\<open>repr\<close>.
\<close>

fun py_str :: "pyval \<Rightarrow> string" where
  "py_str (PyStr s) = s"
| "py_str (PyUserLookup UserLookupType_ID) = ''UserLookupType.ID''"
| "py_str (PyUserLookup UserLookupType_Name) = ''UserLookupType.Name''"
| "py_str (PyBanLookup BanLookupType_Name) = ''BanLookupType.Name''"
| "py_str (PyBanLookup BanLookupType_IP) = ''BanLookupType.IP''"
| "py_str v = py_repr v"

section \<open>The standard library: \<^verbatim>\<open>urllib.parse\<close>\<close>

text \<open>
  \<^verbatim>\<open>get_url\<close> calls \<^verbatim>\<open>urlencode\<close> and \<^verbatim>\<open>urljoin\<close> of the standard library.  They are
  modelled after CPython 3.11 (\<^verbatim>\<open>Lib/urllib/parse.py\<close>, and \<^verbatim>\<open>Lib/ipaddress.py\<close> for
  the host written in brackets), function by function.  One check of \<^verbatim>\<open>urlsplit\<close> has
  no counterpart: the NFKC check of the network location, which no code point below
  256 can fail.
\<close>

subsection \<open>String helpers\<close>

text \<open>\<^verbatim>\<open>s.find(c)\<close>: the first index of \<open>c\<close>, or nothing.\<close>

fun find_char :: "char \<Rightarrow> string \<Rightarrow> nat option" where
  "find_char c [] = None"
| "find_char c (x # xs) =
     (if x = c then Some 0 else (case find_char c xs of None \<Rightarrow> None | Some i \<Rightarrow> Some (Suc i)))"

text \<open>\<^verbatim>\<open>s.split(c, 1)\<close> for a string that contains \<open>c\<close>: the text before and after the first \<open>c\<close>.\<close>

definition split1 :: "char \<Rightarrow> string \<Rightarrow> string \<times> string" where
  "split1 c s = (takeWhile (\<lambda>x. x \<noteq> c) s, drop 1 (dropWhile (\<lambda>x. x \<noteq> c) s))"

text \<open>\<^verbatim>\<open>s.split(c)\<close>: always at least one piece.\<close>

fun split_all :: "char \<Rightarrow> string \<Rightarrow> string list" where
  "split_all c [] = [[]]"
| "split_all c (x # xs) =
     (if x = c then [] # split_all c xs
      else (case split_all c xs of [] \<Rightarrow> [[x]] | r # rs \<Rightarrow> (x # r) # rs))"

definition ascii_alpha :: "char \<Rightarrow> bool" where
  "ascii_alpha c = (let n = (of_char c :: nat) in (65 \<le> n \<and> n \<le> 90) \<or> (97 \<le> n \<and> n \<le> 122))"

definition ascii_lower :: "char \<Rightarrow> char" where
  "ascii_lower c = (let n = (of_char c :: nat) in if 65 \<le> n \<and> n \<le> 90 then char_of (n + 32) else c)"

subsection \<open>\<^verbatim>\<open>quote\<close>, \<^verbatim>\<open>quote_plus\<close>, \<^verbatim>\<open>urlencode\<close>\<close>

definition always_safe :: "string" where
  "always_safe = ''ABCDEFGHIJKLMNOPQRSTUVWXYZabcdefghijklmnopqrstuvwxyz0123456789_.-~''"

text \<open>The UTF-8 bytes of one code point below 256.\<close>

definition utf8 :: "char \<Rightarrow> nat list" where
  "utf8 c = (let n = (of_char c :: nat) in if n < 128 then [n] else [192 + n div 64, 128 + n mod 64])"

definition quote_byte :: "string \<Rightarrow> nat \<Rightarrow> string" where
  "quote_byte safe b =
     (if b < 128 \<and> char_of b \<in> set (always_safe @ safe) then [char_of b]
      else [CHR ''%'', hex_upper (b div 16), hex_upper (b mod 16)])"

definition quote :: "string \<Rightarrow> string \<Rightarrow> string" where
  "quote s safe = concat (map (quote_byte safe) (concat (map utf8 s)))"

definition quote_plus :: "string \<Rightarrow> string" where
  "quote_plus s =
     (if CHR '' '' \<notin> set s then quote s []
      else map (\<lambda>c. if c = CHR '' '' then CHR ''+'' else c) (quote s '' ''))"

text \<open>
  \<^verbatim>\<open>urlencode(query)\<close> for a dict, without \<^verbatim>\<open>doseq\<close>: the pairs in the dict's order,
  key and \<^verbatim>\<open>str(value)\<close> quoted, joined by \<^verbatim>\<open>&\<close>.
\<close>

definition urlencode :: "(string \<times> pyval) list \<Rightarrow> string" where
  "urlencode query =
     join ''&'' (map (\<lambda>kv. quote_plus (fst kv) @ ''='' @ quote_plus (py_str (snd kv))) query)"

subsection \<open>The classes of schemes\<close>

definition uses_relative :: "string list" where
  "uses_relative = [[], ''ftp'', ''http'', ''gopher'', ''nntp'', ''imap'', ''wais'', ''file'',
     ''https'', ''shttp'', ''mms'', ''prospero'', ''rtsp'', ''rtsps'', ''rtspu'', ''sftp'',
     ''svn'', ''svn+ssh'', ''ws'', ''wss'']"

definition uses_netloc :: "string list" where
  "uses_netloc = [[], ''ftp'', ''http'', ''gopher'', ''nntp'', ''telnet'', ''imap'', ''wais'',
     ''file'', ''mms'', ''https'', ''shttp'', ''snews'', ''prospero'', ''rtsp'', ''rtsps'',
     ''rtspu'', ''rsync'', ''svn'', ''svn+ssh'', ''sftp'', ''nfs'', ''git'', ''git+ssh'',
     ''ws'', ''wss'']"

definition uses_params :: "string list" where
  "uses_params = [[], ''ftp'', ''hdl'', ''prospero'', ''http'', ''imap'', ''https'', ''shttp'',
     ''rtsp'', ''rtsps'', ''rtspu'', ''sip'', ''sips'', ''mms'', ''sftp'', ''tel'']"

definition scheme_chars :: "string" where
  "scheme_chars = ''abcdefghijklmnopqrstuvwxyzABCDEFGHIJKLMNOPQRSTUVWXYZ0123456789+-.''"

text \<open>\<^verbatim>\<open>_splitnetloc(url, 2)\<close>: the text after the two slashes up to the first of \<^verbatim>\<open>/?#\<close>, and the rest.\<close>

definition splitnetloc :: "string \<Rightarrow> string \<times> string" where
  "splitnetloc url =
     (let r = drop 2 url; inside = (\<lambda>c. c \<noteq> CHR ''/'' \<and> c \<noteq> CHR ''?'' \<and> c \<noteq> CHR ''#'')
      in (takeWhile inside r, dropWhile inside r))"

subsection \<open>The host in brackets: \<^verbatim>\<open>_check_bracketed_host\<close>\<close>

text \<open>
  \<^verbatim>\<open>IPv4Address(s)\<close> accepts four decimal octets separated by dots, each of at most
  three digits, without a leading zero and at most 255.
\<close>

definition ascii_digit :: "char \<Rightarrow> bool" where
  "ascii_digit c = (let n = (of_char c :: nat) in 48 \<le> n \<and> n \<le> 57)"

definition hex_digit :: "char \<Rightarrow> bool" where
  "hex_digit c = (c \<in> set ''0123456789ABCDEFabcdef'')"

definition dec_value :: "string \<Rightarrow> int" where
  "dec_value s = foldl (\<lambda>a c. 10 * a + (of_char c - 48)) 0 s"

definition parse_octet_ok :: "string \<Rightarrow> bool" where
  "parse_octet_ok octet_str =
     (if octet_str = [] then False
      else if list_all ascii_digit octet_str then
        (if 3 < length octet_str then False
         else if octet_str = ''0'' then True
         else if hd octet_str = CHR ''0'' then False
         else dec_value octet_str \<le> 255)
      else False)"

definition ipv4_ok :: "string \<Rightarrow> bool" where
  "ipv4_ok s =
     (if CHR ''/'' \<in> set s then False
      else if s = [] then False
      else length (split_all CHR ''.'' s) = 4 \<and> list_all parse_octet_ok (split_all CHR ''.'' s))"

text \<open>The value of a well-formed IPv4 address, and \<^verbatim>\<open>'%x' % n\<close>.\<close>

definition ipv4_int :: "string \<Rightarrow> int" where
  "ipv4_int s = foldl (\<lambda>a octet_str. 256 * a + dec_value octet_str) 0 (split_all CHR ''.'' s)"

function hex_str :: "int \<Rightarrow> string" where
  "hex_str n = (if n < 16 then [hex_lower (nat n)] else hex_str (n div 16) @ [hex_lower (nat (n mod 16))])"
  by pat_completeness auto
termination
  by (relation "measure nat") auto

declare hex_str.simps [simp del]

text \<open>
  \<^verbatim>\<open>IPv6Address._parse_hextet\<close> accepts one to four hexadecimal digits.  In
  \<^verbatim>\<open>_ip_int_from_string\<close> the parts between colons are at most nine; an empty part
  away from both ends marks the \<^verbatim>\<open>::\<close>, of which there is at most one; an empty first
  or last part must belong to it; with it at most seven other parts remain, without it
  there are exactly eight.
\<close>

definition parse_hextet_ok :: "string \<Rightarrow> bool" where
  "parse_hextet_ok hextet_str =
     (list_all hex_digit hextet_str \<and> length hextet_str \<le> 4 \<and> hextet_str \<noteq> [])"

definition ipv6_parts_ok :: "string list \<Rightarrow> bool" where
  "ipv6_parts_ok parts =
     (let n = length parts in
      if 9 < n then False
      else case filter (\<lambda>i. parts ! i = []) [1..<n - 1] of
        [] \<Rightarrow>
          (if n = 8 then
             (if hd parts = [] then False
              else if last parts = [] then False
              else list_all parse_hextet_ok parts)
           else False)
      | [skip_index] \<Rightarrow>
          (let parts_hi = (if hd parts = [] then skip_index - 1 else skip_index);
               parts_lo = (if last parts = [] then n - skip_index - 1 - 1 else n - skip_index - 1)
           in if hd parts = [] \<and> 0 < parts_hi then False
              else if last parts = [] \<and> 0 < parts_lo then False
              else if 8 \<le> parts_hi + parts_lo then False
              else list_all parse_hextet_ok (take parts_hi parts)
                   \<and> list_all parse_hextet_ok (drop (n - parts_lo) parts))
      | _ \<Rightarrow> False)"

definition ipv6_int_ok :: "string \<Rightarrow> bool" where
  "ipv6_int_ok ip_str =
     (if ip_str = [] then False
      else let parts = split_all CHR '':'' ip_str in
        if length parts < 3 then False
        else if CHR ''.'' \<in> set (last parts)
        then (if ipv4_ok (last parts)
              then ipv6_parts_ok (butlast parts
                     @ [hex_str ((ipv4_int (last parts) div 65536) mod 65536),
                        hex_str (ipv4_int (last parts) mod 65536)])
              else False)
        else ipv6_parts_ok parts)"

text \<open>\<^verbatim>\<open>IPv6Address(s)\<close>: no slash, an optional scope after \<^verbatim>\<open>%\<close> that is not empty and has no further \<^verbatim>\<open>%\<close>.\<close>

definition ipv6_ok :: "string \<Rightarrow> bool" where
  "ipv6_ok s =
     (if CHR ''/'' \<in> set s then False
      else if CHR ''%'' \<in> set s
      then (if snd (split1 CHR ''%'' s) = [] then False
            else if CHR ''%'' \<in> set (snd (split1 CHR ''%'' s)) then False
            else ipv6_int_ok (fst (split1 CHR ''%'' s)))
      else ipv6_int_ok s)"

text \<open>
  \<^verbatim>\<open>_check_bracketed_host(hostname)\<close>: a name that starts with \<^verbatim>\<open>v\<close> must match
  \<^verbatim>\<open>v[a-fA-F0-9]+\..+\<close> (the text holds no newline: \<^verbatim>\<open>urlsplit\<close> has removed them);
  any other name must be an IPv6 address and not an IPv4 address.
\<close>

definition check_bracketed_host :: "string \<Rightarrow> bool" where
  "check_bracketed_host hostname =
     (if take 1 hostname = ''v''
      then (let digits = takeWhile hex_digit (drop 1 hostname);
                rest = dropWhile hex_digit (drop 1 hostname)
            in digits \<noteq> [] \<and> take 1 rest = ''.'' \<and> drop 1 rest \<noteq> [])
      else if ipv4_ok hostname then False
      else ipv6_ok hostname)"

subsection \<open>\<^verbatim>\<open>urlsplit\<close>\<close>

text \<open>
  \<^verbatim>\<open>urlsplit(url, scheme)\<close> gives scheme, netloc, path, query and fragment.  The
  default scheme passed by \<^verbatim>\<open>urljoin\<close> is empty or an already parsed scheme, so that
  stripping it changes nothing.
\<close>

definition urlsplit :: "string \<Rightarrow> string \<Rightarrow> exc + (string \<times> string \<times> string \<times> string \<times> string)" where
  "urlsplit url0 scheme0 =
     (let url1 = filter (\<lambda>c. c \<noteq> CHR 0x09 \<and> c \<noteq> CHR 0x0D \<and> c \<noteq> CHR 0x0A)
                   (dropWhile (\<lambda>c. (of_char c :: nat) \<le> 32) url0);
          has_scheme = (case find_char CHR '':'' url1 of
                          None \<Rightarrow> False
                        | Some i \<Rightarrow> 0 < i \<and> ascii_alpha (hd url1)
                            \<and> list_all (\<lambda>c. c \<in> set scheme_chars) (take i url1));
          scheme = (if has_scheme then map ascii_lower (takeWhile (\<lambda>c. c \<noteq> CHR '':'') url1) else scheme0);
          url2 = (if has_scheme then drop 1 (dropWhile (\<lambda>c. c \<noteq> CHR '':'') url1) else url1);
          has_netloc = (take 2 url2 = ''//'');
          netloc = (if has_netloc then fst (splitnetloc url2) else []);
          url3 = (if has_netloc then snd (splitnetloc url2) else url2)
      in if (CHR ''['' \<in> set netloc \<and> CHR '']'' \<notin> set netloc)
            \<or> (CHR '']'' \<in> set netloc \<and> CHR ''['' \<notin> set netloc)
         then Inl ValueError
         else if CHR ''['' \<in> set netloc \<and> CHR '']'' \<in> set netloc
            \<and> \<not> check_bracketed_host
                  (takeWhile (\<lambda>c. c \<noteq> CHR '']'') (drop 1 (dropWhile (\<lambda>c. c \<noteq> CHR ''['') netloc)))
         then Inl ValueError
         else
           let fragment = (if CHR ''#'' \<in> set url3 then snd (split1 CHR ''#'' url3) else []);
               url4 = (if CHR ''#'' \<in> set url3 then fst (split1 CHR ''#'' url3) else url3);
               query = (if CHR ''?'' \<in> set url4 then snd (split1 CHR ''?'' url4) else []);
               url5 = (if CHR ''?'' \<in> set url4 then fst (split1 CHR ''?'' url4) else url4)
           in Inr (scheme, netloc, url5, query, fragment))"

subsection \<open>\<^verbatim>\<open>urlparse\<close>, \<^verbatim>\<open>urlunparse\<close>, \<^verbatim>\<open>urljoin\<close>\<close>

text \<open>\<^verbatim>\<open>_splitparams\<close>: the parameters start at the first \<^verbatim>\<open>;\<close> of the last path segment.\<close>

definition splitparams :: "string \<Rightarrow> string \<times> string" where
  "splitparams url =
     (if CHR ''/'' \<in> set url
      then (let segs = split_all CHR ''/'' url;
                front = join ''/'' (butlast segs) @ ''/'';
                tail = last segs
            in if CHR '';'' \<in> set tail
               then (front @ fst (split1 CHR '';'' tail), snd (split1 CHR '';'' tail))
               else (url, []))
      else split1 CHR '';'' url)"

definition urlparse ::
  "string \<Rightarrow> string \<Rightarrow> exc + (string \<times> string \<times> string \<times> string \<times> string \<times> string)" where
  "urlparse url scheme0 =
     (case urlsplit url scheme0 of
        Inl e \<Rightarrow> Inl e
      | Inr (scheme, netloc, path, query, fragment) \<Rightarrow>
          if scheme \<in> set uses_params \<and> CHR '';'' \<in> set path
          then Inr (scheme, netloc, fst (splitparams path), snd (splitparams path), query, fragment)
          else Inr (scheme, netloc, path, [], query, fragment))"

definition urlunsplit :: "string \<times> string \<times> string \<times> string \<times> string \<Rightarrow> string" where
  "urlunsplit c =
     (case c of (scheme, netloc, url0, query, fragment) \<Rightarrow>
        let url1 = (if netloc \<noteq> [] \<or> (scheme \<noteq> [] \<and> scheme \<in> set uses_netloc) \<or> take 2 url0 = ''//''
                    then ''//'' @ netloc @ (if url0 \<noteq> [] \<and> take 1 url0 \<noteq> ''/'' then ''/'' @ url0 else url0)
                    else url0);
            url2 = (if scheme \<noteq> [] then scheme @ '':'' @ url1 else url1);
            url3 = (if query \<noteq> [] then url2 @ ''?'' @ query else url2)
        in (if fragment \<noteq> [] then url3 @ ''#'' @ fragment else url3))"

definition urlunparse :: "string \<times> string \<times> string \<times> string \<times> string \<times> string \<Rightarrow> string" where
  "urlunparse c =
     (case c of (scheme, netloc, url, params, query, fragment) \<Rightarrow>
        urlunsplit (scheme, netloc, (if params \<noteq> [] then url @ '';'' @ params else url), query, fragment))"

text \<open>The loop of \<^verbatim>\<open>urljoin\<close> over the path segments: \<^verbatim>\<open>..\<close> pops, \<^verbatim>\<open>.\<close> is skipped.\<close>

fun resolve :: "string list \<Rightarrow> string list \<Rightarrow> string list" where
  "resolve resolved_path [] = resolved_path"
| "resolve resolved_path (seg # segs) =
     (if seg = ''..'' then resolve (butlast resolved_path) segs
      else if seg = ''.'' then resolve resolved_path segs
      else resolve (resolved_path @ [seg]) segs)"

definition urljoin :: "string \<Rightarrow> string \<Rightarrow> exc + string" where
  "urljoin base url =
     (if base = [] then Inr url
      else if url = [] then Inr base
      else case urlparse base [] of
        Inl e \<Rightarrow> Inl e
      | Inr (bscheme, bnetloc, bpath, bparams, bquery, bfragment) \<Rightarrow>
      (case urlparse url bscheme of
        Inl e \<Rightarrow> Inl e
      | Inr (scheme, netloc0, path, params, query, fragment) \<Rightarrow>
          if scheme \<noteq> bscheme \<or> scheme \<notin> set uses_relative then Inr url
          else if scheme \<in> set uses_netloc \<and> netloc0 \<noteq> []
          then Inr (urlunparse (scheme, netloc0, path, params, query, fragment))
          else
            let netloc = (if scheme \<in> set uses_netloc then bnetloc else netloc0) in
            if path = [] \<and> params = []
            then Inr (urlunparse (scheme, netloc, bpath, bparams,
                        (if query = [] then bquery else query), fragment))
            else
              let base_parts0 = split_all CHR ''/'' bpath;
                  base_parts = (if last base_parts0 \<noteq> [] then butlast base_parts0 else base_parts0);
                  joined = base_parts @ split_all CHR ''/'' path;
                  segments =
                    (if take 1 path = ''/'' then split_all CHR ''/'' path
                     else if length joined \<le> 1 then joined
                     else take 1 joined @ filter (\<lambda>s. s \<noteq> []) (butlast (drop 1 joined)) @ [last joined]);
                  resolved0 = resolve [] segments;
                  resolved_path = (if last segments = ''.'' \<or> last segments = ''..''
                                   then resolved0 @ [[]] else resolved0);
                  newpath = (if join ''/'' resolved_path = [] then ''/'' else join ''/'' resolved_path)
              in Inr (urlunparse (scheme, netloc, newpath, params, query, fragment))))"

section \<open>The URL builder: \<^verbatim>\<open>RequestBuilder\<close>\<close>

text \<open>
  \<^verbatim>\<open>RequestBuilder.__init__(self, ip, post)\<close> stores the address and an empty token.
  The fields hold whatever the caller passed, so they are Python values.
\<close>

record RequestBuilder =
  rb_ip :: pyval
  rb_post :: pyval
  rb_token :: pyval

definition RequestBuilder_init :: "pyval \<Rightarrow> pyval \<Rightarrow> RequestBuilder" where
  "RequestBuilder_init ip post = \<lparr>rb_ip = ip, rb_post = post, rb_token = PyStr []\<rparr>"

text \<open>\<^verbatim>\<open>"/".join(args)\<close>: \<^verbatim>\<open>TypeError\<close> as soon as one item is not a \<open>str\<close>.\<close>

fun str_items :: "pyval list \<Rightarrow> exc + string list" where
  "str_items [] = Inr []"
| "str_items (PyStr s # vs) = (case str_items vs of Inl e \<Rightarrow> Inl e | Inr ss \<Rightarrow> Inr (s # ss))"
| "str_items (v # vs) = Inl TypeError"

definition str_join :: "string \<Rightarrow> pyval list \<Rightarrow> exc + string" where
  "str_join sep args = (case str_items args of Inl e \<Rightarrow> Inl e | Inr ss \<Rightarrow> Inr (join sep ss))"

text \<open>\<^verbatim>\<open>d[k] = v\<close> on a dict: an existing key keeps its place, a new key goes last.\<close>

fun setitem :: "(string \<times> pyval) list \<Rightarrow> string \<Rightarrow> pyval \<Rightarrow> (string \<times> pyval) list" where
  "setitem [] k v = [(k, v)]"
| "setitem ((k', v') # kvs) k v = (if k' = k then (k, v) # kvs else (k', v') # setitem kvs k v)"

text \<open>
  \<^verbatim>\<open>
  def get_url(self, *args, **kwargs) -> str:
      base = "http://{0}:{1}".format(self.ip, self.post)
      path = "/" + "/".join(args)
      kwargs['token'] = self.token
      params = urlencode(kwargs)
      return "{0}?{1}".format(urljoin(base, path), params)
  \<close>
\<close>

definition get_url :: "RequestBuilder \<Rightarrow> pyval list \<Rightarrow> (string \<times> pyval) list \<Rightarrow> exc + string" where
  "get_url self args kwargs =
     (let base = ''http://'' @ py_str (rb_ip self) @ '':'' @ py_str (rb_post self) in
      case str_join ''/'' args of
        Inl e \<Rightarrow> Inl e
      | Inr joined \<Rightarrow>
          let path = ''/'' @ joined;
              kwargs' = setitem kwargs ''token'' (rb_token self);
              params = urlencode kwargs'
          in (case urljoin base path of
                Inl e \<Rightarrow> Inl e
              | Inr u \<Rightarrow> Inr (u @ ''?'' @ params)))"

section \<open>The API client: \<^verbatim>\<open>TShock\<close>\<close>

record TShock =
  urls :: RequestBuilder
  ip :: pyval
  port :: pyval
  token :: string

definition TShock_init :: "pyval \<Rightarrow> pyval \<Rightarrow> TShock" where
  "TShock_init ip0 port0 = \<lparr>urls = RequestBuilder_init ip0 port0, ip = ip0, port = port0, token = []\<rparr>"

subsection \<open>The network\<close>

text \<open>
  \<^verbatim>\<open>req.get(url)\<close> either raises or returns a response, and \<^verbatim>\<open>res.json()\<close> either
  raises \<^verbatim>\<open>ValueError\<close> (the body is not JSON) or returns the decoded value.  The
  server is a function of the requests made so far and of the URL asked for; the list
  of requests is threaded through every call, so that it also records which GETs the
  client has issued.
\<close>

datatype response = Response (json: "pyval option")

datatype get_result = GetRaises | GetReturns response

type_synonym network = "string list \<Rightarrow> string \<Rightarrow> get_result"

text \<open>\<^verbatim>\<open>obj[key]\<close> for a string key: only a dict can be read that way.\<close>

fun getitem :: "pyval \<Rightarrow> string \<Rightarrow> exc + pyval" where
  "getitem (PyDict kvs) k = (case map_of kvs k of None \<Rightarrow> Inl KeyError | Some v \<Rightarrow> Inr v)"
| "getitem v k = Inl TypeError"

text \<open>
  \<^verbatim>\<open>
  def _make_request(self, url : str) -> dict:
      try:
          res = req.get(url)
      except Exception:
          raise ApiException("An error occurred in making the request to the server.")
      results = res.json()
      if results['status'] == "404":
          raise ApiException("404 Error. Are you sure the server has REST enabled?")
      elif results['status'] in ["200", "400"]:
          pass
      else:
          raise ApiException("Error in request. Server returned status: {0} With error: {1}".format(
              results["status"],
              results["error"]
          ))
      return results
  \<close>
  The method does not touch \<open>self\<close>; the model returns the result and the extended
  list of requests.
\<close>

definition make_request :: "network \<Rightarrow> string \<Rightarrow> string list \<Rightarrow> (exc + pyval) \<times> string list" where
  "make_request net url log =
     (case net log url of
        GetRaises \<Rightarrow>
          (Inl (ApiException ''An error occurred in making the request to the server.''), log @ [url])
      | GetReturns res \<Rightarrow>
          (case json res of
             None \<Rightarrow> (Inl ValueError, log @ [url])
           | Some results \<Rightarrow>
               (case getitem results ''status'' of
                  Inl e \<Rightarrow> (Inl e, log @ [url])
                | Inr status \<Rightarrow>
                    if status = PyStr ''404''
                    then (Inl (ApiException ''404 Error. Are you sure the server has REST enabled?''),
                          log @ [url])
                    else if status \<in> set [PyStr ''200'', PyStr ''400'']
                    then (Inr results, log @ [url])
                    else (case getitem results ''error'' of
                            Inl e \<Rightarrow> (Inl e, log @ [url])
                          | Inr error \<Rightarrow>
                              (Inl (ApiException (''Error in request. Server returned status: ''
                                      @ py_str status @ '' With error: '' @ py_str error)),
                               log @ [url])))))"

subsection \<open>The endpoint methods\<close>

text \<open>
  Every endpoint method evaluates \<^verbatim>\<open>self._make_request(self.urls.get_url(...))\<close>: the
  URL is built first, and an exception of \<^verbatim>\<open>get_url\<close> leaves before any request.
  \<open>request\<close> is that composition.  A method takes the network, its arguments, the
  client and the requests so far, and gives its result, the client afterwards and the
  requests afterwards.  A method without a \<^verbatim>\<open>return\<close> gives \<^verbatim>\<open>None\<close>.  Parameters
  have the types of their annotations.
\<close>

definition request ::
  "network \<Rightarrow> TShock \<Rightarrow> string list \<Rightarrow> pyval list \<Rightarrow> (string \<times> pyval) list
     \<Rightarrow> (exc + pyval) \<times> string list" where
  "request net self log args kwargs =
     (case get_url (urls self) args kwargs of
        Inl e \<Rightarrow> (Inl e, log)
      | Inr url \<Rightarrow> make_request net url log)"

type_synonym outcome = "(exc + pyval) \<times> TShock \<times> string list"

definition returning :: "TShock \<Rightarrow> (exc + pyval) \<times> string list \<Rightarrow> outcome" where
  "returning self r = (fst r, self, snd r)"

definition discarding :: "TShock \<Rightarrow> (exc + pyval) \<times> string list \<Rightarrow> outcome" where
  "discarding self r = ((case fst r of Inl e \<Rightarrow> Inl e | Inr v \<Rightarrow> Inr PyNone), self, snd r)"

text \<open>
  \<^verbatim>\<open>
  def get_token(self, user : str, password : str):
      self.urls.token = self._make_request(
          self.urls.get_url("v2", "token", "create", password, username=user)
      )["token"]
  \<close>
\<close>

definition get_token :: "network \<Rightarrow> string \<Rightarrow> string \<Rightarrow> TShock \<Rightarrow> string list \<Rightarrow> outcome" where
  "get_token net user password self log =
     (case request net self log [PyStr ''v2'', PyStr ''token'', PyStr ''create'', PyStr password]
             [(''username'', PyStr user)] of
        (Inl e, log') \<Rightarrow> (Inl e, self, log')
      | (Inr results, log') \<Rightarrow>
          (case getitem results ''token'' of
             Inl e \<Rightarrow> (Inl e, self, log')
           | Inr t \<Rightarrow> (Inr PyNone, self\<lparr>urls := (urls self)\<lparr>rb_token := t\<rparr>\<rparr>, log')))"

definition get_status :: "network \<Rightarrow> TShock \<Rightarrow> string list \<Rightarrow> outcome" where
  "get_status net self log = returning self (request net self log [PyStr ''status''] [])"

text \<open>
  \<^verbatim>\<open>
  def get_token_status(self) -> bool:
      try:
          self._make_request(self.urls.get_url("tokentest"))
      except ApiException:
          return False
      return True
  \<close>
\<close>

definition get_token_status :: "network \<Rightarrow> TShock \<Rightarrow> string list \<Rightarrow> outcome" where
  "get_token_status net self log =
     (case request net self log [PyStr ''tokentest''] [] of
        (Inl (ApiException m), log') \<Rightarrow> (Inr (PyBool False), self, log')
      | (Inl e, log') \<Rightarrow> (Inl e, self, log')
      | (Inr v, log') \<Rightarrow> (Inr (PyBool True), self, log'))"

text \<open>
  \<^verbatim>\<open>get_server_status_v2(self, players=False, rules=False, filters=None)\<close> passes
  \<^verbatim>\<open>players=players, rules=rules, **filters\<close>; a filter named like one of the two
  keywords, or named \<^verbatim>\<open>self\<close> like the first parameter of \<^verbatim>\<open>get_url\<close>, makes the call
  itself raise \<^verbatim>\<open>TypeError\<close>.
\<close>

definition get_server_status_v2 ::
  "network \<Rightarrow> bool \<Rightarrow> bool \<Rightarrow> (string \<times> pyval) list option \<Rightarrow> TShock \<Rightarrow> string list \<Rightarrow> outcome" where
  "get_server_status_v2 net players rules filters0 self log =
     (let filters = (case filters0 of None \<Rightarrow> [] | Some d \<Rightarrow> d) in
      if ''players'' \<in> set (map fst filters) \<or> ''rules'' \<in> set (map fst filters)
         \<or> ''self'' \<in> set (map fst filters)
      then (Inl TypeError, self, log)
      else returning self (request net self log [PyStr ''v2'', PyStr ''server'', PyStr ''status'']
             ([(''players'', PyBool players), (''rules'', PyBool rules)] @ filters)))"

definition get_active_user_list :: "network \<Rightarrow> TShock \<Rightarrow> string list \<Rightarrow> outcome" where
  "get_active_user_list net self log =
     returning self (request net self log [PyStr ''v2'', PyStr ''users'', PyStr ''activelist''] [])"

definition get_user_info :: "network \<Rightarrow> UserLookupType \<Rightarrow> string \<Rightarrow> TShock \<Rightarrow> string list \<Rightarrow> outcome" where
  "get_user_info net lookup user self log =
     returning self (request net self log [PyStr ''v2'', PyStr ''users'', PyStr ''read'']
       [(''type'', PyStr (UserLookupType_value lookup)), (''user'', PyStr user)])"

definition get_ban_information :: "network \<Rightarrow> BanLookupType \<Rightarrow> string \<Rightarrow> TShock \<Rightarrow> string list \<Rightarrow> outcome" where
  "get_ban_information net lookup user self log =
     returning self (request net self log [PyStr ''v2'', PyStr ''bans'', PyStr ''read'']
       [(''type'', PyStr (BanLookupType_value lookup)), (''ban'', PyStr user)])"

definition get_ban_list :: "network \<Rightarrow> TShock \<Rightarrow> string list \<Rightarrow> outcome" where
  "get_ban_list net self log =
     returning self (request net self log [PyStr ''v2'', PyStr ''bans'', PyStr ''list''] [])"

definition get_player_list :: "network \<Rightarrow> TShock \<Rightarrow> string list \<Rightarrow> outcome" where
  "get_player_list net self log =
     returning self (request net self log [PyStr ''v2'', PyStr ''players'', PyStr ''list''] [])"

definition get_player_info :: "network \<Rightarrow> string \<Rightarrow> TShock \<Rightarrow> string list \<Rightarrow> outcome" where
  "get_player_info net player self log =
     returning self (request net self log [PyStr ''v2'', PyStr ''players'', PyStr ''read'']
       [(''player'', PyStr player)])"

definition get_world_info :: "network \<Rightarrow> TShock \<Rightarrow> string list \<Rightarrow> outcome" where
  "get_world_info net self log =
     returning self (request net self log [PyStr ''world'', PyStr ''read''] [])"

definition get_group_list :: "network \<Rightarrow> TShock \<Rightarrow> string list \<Rightarrow> outcome" where
  "get_group_list net self log =
     returning self (request net self log [PyStr ''v2'', PyStr ''groups'', PyStr ''list''] [])"

definition get_group_info :: "network \<Rightarrow> string \<Rightarrow> TShock \<Rightarrow> string list \<Rightarrow> outcome" where
  "get_group_info net group0 self log =
     returning self (request net self log [PyStr ''v2'', PyStr ''groups'', PyStr ''read'']
       [(''group'', PyStr group0)])"

definition get_server_motd :: "network \<Rightarrow> TShock \<Rightarrow> string list \<Rightarrow> outcome" where
  "get_server_motd net self log =
     returning self (request net self log [PyStr ''v3'', PyStr ''server'', PyStr ''motd''] [])"

definition get_server_rules :: "network \<Rightarrow> TShock \<Rightarrow> string list \<Rightarrow> outcome" where
  "get_server_rules net self log =
     returning self (request net self log [PyStr ''v3'', PyStr ''server'', PyStr ''rules''] [])"

text \<open>
  \<^verbatim>\<open>
  def do_destroy_token(self):
      self._make_request(self.urls.get_url("token", "destroy", self.urls.token))
  \<close>
\<close>

definition do_destroy_token :: "network \<Rightarrow> TShock \<Rightarrow> string list \<Rightarrow> outcome" where
  "do_destroy_token net self log =
     discarding self (request net self log [PyStr ''token'', PyStr ''destroy'', rb_token (urls self)] [])"

definition do_destroy_all_tokens :: "network \<Rightarrow> TShock \<Rightarrow> string list \<Rightarrow> outcome" where
  "do_destroy_all_tokens net self log =
     discarding self (request net self log
       [PyStr ''v3'', PyStr ''token'', PyStr ''destroy'', PyStr ''all''] [])"

definition do_server_broadcast :: "network \<Rightarrow> string \<Rightarrow> TShock \<Rightarrow> string list \<Rightarrow> outcome" where
  "do_server_broadcast net message self log =
     discarding self (request net self log [PyStr ''v2'', PyStr ''server'', PyStr ''broadcast'']
       [(''msg'', PyStr message)])"

definition do_server_reload :: "network \<Rightarrow> TShock \<Rightarrow> string list \<Rightarrow> outcome" where
  "do_server_reload net self log =
     discarding self (request net self log [PyStr ''v3'', PyStr ''server'', PyStr ''reload''] [])"

definition do_server_off :: "network \<Rightarrow> TShock \<Rightarrow> string list \<Rightarrow> outcome" where
  "do_server_off net self log =
     discarding self (request net self log [PyStr ''v2'', PyStr ''server'', PyStr ''off''] [])"

definition do_server_restart :: "network \<Rightarrow> TShock \<Rightarrow> string list \<Rightarrow> outcome" where
  "do_server_restart net self log =
     discarding self (request net self log [PyStr ''v3'', PyStr ''server'', PyStr ''restart''] [])"

definition do_server_rawcmd_v2 :: "network \<Rightarrow> string \<Rightarrow> TShock \<Rightarrow> string list \<Rightarrow> outcome" where
  "do_server_rawcmd_v2 net command self log =
     returning self (request net self log [PyStr ''v2'', PyStr ''server'', PyStr ''rawcmd'']
       [(''cmd'', PyStr command)])"

definition do_server_rawcmd_v3 :: "network \<Rightarrow> string \<Rightarrow> TShock \<Rightarrow> string list \<Rightarrow> outcome" where
  "do_server_rawcmd_v3 net command self log =
     returning self (request net self log [PyStr ''v3'', PyStr ''server'', PyStr ''rawcmd'']
       [(''cmd'', PyStr command)])"

definition do_create_ban :: "network \<Rightarrow> string \<Rightarrow> string \<Rightarrow> string \<Rightarrow> TShock \<Rightarrow> string list \<Rightarrow> outcome" where
  "do_create_ban net ip0 name reason self log =
     discarding self (request net self log [PyStr ''bans'', PyStr ''create'']
       [(''ip'', PyStr ip0), (''name'', PyStr name), (''reason'', PyStr reason)])"

text \<open>
  \<^verbatim>\<open>
  def do_delete_ban(self, type : BanLookupType, ban : str):
      self._make_request(self.urls.get_url("v2", "bans", "destroy", ban=ban, type=type))
  \<close>
  The enumeration member itself is passed, not its \<^verbatim>\<open>.value\<close>.
\<close>

definition do_delete_ban :: "network \<Rightarrow> BanLookupType \<Rightarrow> string \<Rightarrow> TShock \<Rightarrow> string list \<Rightarrow> outcome" where
  "do_delete_ban net type ban self log =
     discarding self (request net self log [PyStr ''v2'', PyStr ''bans'', PyStr ''destroy'']
       [(''ban'', PyStr ban), (''type'', PyBanLookup type)])"

definition do_world_meteor :: "network \<Rightarrow> TShock \<Rightarrow> string list \<Rightarrow> outcome" where
  "do_world_meteor net self log =
     discarding self (request net self log [PyStr ''world'', PyStr ''meteor''] [])"

definition do_world_save :: "network \<Rightarrow> TShock \<Rightarrow> string list \<Rightarrow> outcome" where
  "do_world_save net self log =
     discarding self (request net self log [PyStr ''v2'', PyStr ''world'', PyStr ''save''] [])"

definition do_world_butcher :: "network \<Rightarrow> bool \<Rightarrow> TShock \<Rightarrow> string list \<Rightarrow> outcome" where
  "do_world_butcher net killFriendly self log =
     discarding self (request net self log [PyStr ''v2'', PyStr ''world'', PyStr ''butcher'']
       [(''killfriendly'', PyBool killFriendly)])"

definition do_kick_player :: "network \<Rightarrow> string \<Rightarrow> string \<Rightarrow> TShock \<Rightarrow> string list \<Rightarrow> outcome" where
  "do_kick_player net player reason self log =
     discarding self (request net self log [PyStr ''v2'', PyStr ''players'', PyStr ''kick'']
       [(''reason'', PyStr reason), (''player'', PyStr player)])"

definition do_ban_player :: "network \<Rightarrow> string \<Rightarrow> string \<Rightarrow> TShock \<Rightarrow> string list \<Rightarrow> outcome" where
  "do_ban_player net player reason self log =
     discarding self (request net self log [PyStr ''v2'', PyStr ''players'', PyStr ''ban'']
       [(''reason'', PyStr reason), (''player'', PyStr player)])"

definition do_kill_player :: "network \<Rightarrow> string \<Rightarrow> string \<Rightarrow> TShock \<Rightarrow> string list \<Rightarrow> outcome" where
  "do_kill_player net player killer self log =
     discarding self (request net self log [PyStr ''v2'', PyStr ''players'', PyStr ''kill'']
       [(''player'', PyStr player), (''from'', PyStr killer)])"

definition do_mute_player :: "network \<Rightarrow> string \<Rightarrow> TShock \<Rightarrow> string list \<Rightarrow> outcome" where
  "do_mute_player net player self log =
     discarding self (request net self log [PyStr ''v2'', PyStr ''players'', PyStr ''mute'']
       [(''player'', PyStr player)])"

definition do_unmute_player :: "network \<Rightarrow> string \<Rightarrow> TShock \<Rightarrow> string list \<Rightarrow> outcome" where
  "do_unmute_player net player self log =
     discarding self (request net self log [PyStr ''v2'', PyStr ''players'', PyStr ''unmute'']
       [(''player'', PyStr player)])"

definition do_group_delete :: "network \<Rightarrow> string \<Rightarrow> TShock \<Rightarrow> string list \<Rightarrow> outcome" where
  "do_group_delete net group0 self log =
     discarding self (request net self log [PyStr ''v2'', PyStr ''groups'', PyStr ''destroy'']
       [(''group'', PyStr group0)])"

definition do_group_create ::
  "network \<Rightarrow> string \<Rightarrow> string \<Rightarrow> string \<Rightarrow> string \<Rightarrow> TShock \<Rightarrow> string list \<Rightarrow> outcome" where
  "do_group_create net group0 parent permissions chatColor self log =
     discarding self (request net self log [PyStr ''v2'', PyStr ''groups'', PyStr ''create'']
       [(''group'', PyStr group0), (''parent'', PyStr parent),
        (''permissions'', PyStr permissions), (''chatcolor'', PyStr chatColor)])"

definition set_update_user ::
  "network \<Rightarrow> string \<Rightarrow> UserLookupType \<Rightarrow> string \<Rightarrow> string \<Rightarrow> TShock \<Rightarrow> string list \<Rightarrow> outcome" where
  "set_update_user net user type password group0 self log =
     discarding self (request net self log [PyStr ''v2'', PyStr ''users'', PyStr ''update'']
       [(''user'', PyStr user), (''type'', PyStr (UserLookupType_value type)),
        (''password'', PyStr password), (''group'', PyStr group0)])"

text \<open>
  \<^verbatim>\<open>
  def set_world_bloodmoon(self, bloodmoon : bool):
      self._make_request(self.urls.get_url("world", "bloodmoon", bloodmoon))

  def set_world_autosaving(self, autosave : bool):
      self._make_request(self.urls.get_url("v2", "world", "autosave", "state", autosave))
  \<close>
  The boolean goes into the path segments as it is.
\<close>

definition set_world_bloodmoon :: "network \<Rightarrow> bool \<Rightarrow> TShock \<Rightarrow> string list \<Rightarrow> outcome" where
  "set_world_bloodmoon net bloodmoon self log =
     discarding self (request net self log [PyStr ''world'', PyStr ''bloodmoon'', PyBool bloodmoon] [])"

definition set_world_autosaving :: "network \<Rightarrow> bool \<Rightarrow> TShock \<Rightarrow> string list \<Rightarrow> outcome" where
  "set_world_autosaving net autosave self log =
     discarding self (request net self log
       [PyStr ''v2'', PyStr ''world'', PyStr ''autosave'', PyStr ''state'', PyBool autosave] [])"

text \<open>
  \<^verbatim>\<open>set_group_update(self, group, parent=None, chatcolor=None, permissions=None)\<close>
  replaces each missing optional argument by the empty string.
\<close>

definition set_group_update ::
  "network \<Rightarrow> string \<Rightarrow> string option \<Rightarrow> string option \<Rightarrow> string option \<Rightarrow> TShock \<Rightarrow> string list
     \<Rightarrow> outcome" where
  "set_group_update net group0 parent0 chatcolor0 permissions0 self log =
     (let parent = (case parent0 of None \<Rightarrow> [] | Some s \<Rightarrow> s);
          chatcolor = (case chatcolor0 of None \<Rightarrow> [] | Some s \<Rightarrow> s);
          permissions = (case permissions0 of None \<Rightarrow> [] | Some s \<Rightarrow> s)
      in discarding self (request net self log [PyStr ''v2'', PyStr ''groups'', PyStr ''update'']
           [(''group'', PyStr group0), (''parent'', PyStr parent),
            (''chatcolor'', PyStr chatcolor), (''permissions'', PyStr permissions)]))"

subsection \<open>Sequences of calls on one client\<close>

text \<open>
  A call names one public method of \<open>TShock\<close> with its arguments; \<open>exec\<close> dispatches
  it, and \<open>run\<close> makes the calls of a list one after the other on the same client,
  whatever each of them returns or raises.
\<close>

datatype call =
    Get_token string string
  | Get_status
  | Get_token_status
  | Get_server_status_v2 bool bool "(string \<times> pyval) list option"
  | Get_active_user_list
  | Get_user_info UserLookupType string
  | Get_ban_information BanLookupType string
  | Get_ban_list
  | Get_player_list
  | Get_player_info string
  | Get_world_info
  | Get_group_list
  | Get_group_info string
  | Get_server_motd
  | Get_server_rules
  | Do_destroy_token
  | Do_destroy_all_tokens
  | Do_server_broadcast string
  | Do_server_reload
  | Do_server_off
  | Do_server_restart
  | Do_server_rawcmd_v2 string
  | Do_server_rawcmd_v3 string
  | Do_create_ban string string string
  | Do_delete_ban BanLookupType string
  | Do_world_meteor
  | Do_world_save
  | Do_world_butcher bool
  | Do_kick_player string string
  | Do_ban_player string string
  | Do_kill_player string string
  | Do_mute_player string
  | Do_unmute_player string
  | Do_group_delete string
  | Do_group_create string string string string
  | Set_update_user string UserLookupType string string
  | Set_world_bloodmoon bool
  | Set_world_autosaving bool
  | Set_group_update string "string option" "string option" "string option"

fun exec :: "network \<Rightarrow> call \<Rightarrow> TShock \<times> string list \<Rightarrow> outcome" where
  "exec net (Get_token user password) (self, log) = get_token net user password self log"
| "exec net Get_status (self, log) = get_status net self log"
| "exec net Get_token_status (self, log) = get_token_status net self log"
| "exec net (Get_server_status_v2 players rules filters) (self, log) =
     get_server_status_v2 net players rules filters self log"
| "exec net Get_active_user_list (self, log) = get_active_user_list net self log"
| "exec net (Get_user_info lookup user) (self, log) = get_user_info net lookup user self log"
| "exec net (Get_ban_information lookup user) (self, log) = get_ban_information net lookup user self log"
| "exec net Get_ban_list (self, log) = get_ban_list net self log"
| "exec net Get_player_list (self, log) = get_player_list net self log"
| "exec net (Get_player_info player) (self, log) = get_player_info net player self log"
| "exec net Get_world_info (self, log) = get_world_info net self log"
| "exec net Get_group_list (self, log) = get_group_list net self log"
| "exec net (Get_group_info group0) (self, log) = get_group_info net group0 self log"
| "exec net Get_server_motd (self, log) = get_server_motd net self log"
| "exec net Get_server_rules (self, log) = get_server_rules net self log"
| "exec net Do_destroy_token (self, log) = do_destroy_token net self log"
| "exec net Do_destroy_all_tokens (self, log) = do_destroy_all_tokens net self log"
| "exec net (Do_server_broadcast message) (self, log) = do_server_broadcast net message self log"
| "exec net Do_server_reload (self, log) = do_server_reload net self log"
| "exec net Do_server_off (self, log) = do_server_off net self log"
| "exec net Do_server_restart (self, log) = do_server_restart net self log"
| "exec net (Do_server_rawcmd_v2 command) (self, log) = do_server_rawcmd_v2 net command self log"
| "exec net (Do_server_rawcmd_v3 command) (self, log) = do_server_rawcmd_v3 net command self log"
| "exec net (Do_create_ban ip0 name reason) (self, log) = do_create_ban net ip0 name reason self log"
| "exec net (Do_delete_ban type ban) (self, log) = do_delete_ban net type ban self log"
| "exec net Do_world_meteor (self, log) = do_world_meteor net self log"
| "exec net Do_world_save (self, log) = do_world_save net self log"
| "exec net (Do_world_butcher killFriendly) (self, log) = do_world_butcher net killFriendly self log"
| "exec net (Do_kick_player player reason) (self, log) = do_kick_player net player reason self log"
| "exec net (Do_ban_player player reason) (self, log) = do_ban_player net player reason self log"
| "exec net (Do_kill_player player killer) (self, log) = do_kill_player net player killer self log"
| "exec net (Do_mute_player player) (self, log) = do_mute_player net player self log"
| "exec net (Do_unmute_player player) (self, log) = do_unmute_player net player self log"
| "exec net (Do_group_delete group0) (self, log) = do_group_delete net group0 self log"
| "exec net (Do_group_create group0 parent permissions chatColor) (self, log) =
     do_group_create net group0 parent permissions chatColor self log"
| "exec net (Set_update_user user type password group0) (self, log) =
     set_update_user net user type password group0 self log"
| "exec net (Set_world_bloodmoon bloodmoon) (self, log) = set_world_bloodmoon net bloodmoon self log"
| "exec net (Set_world_autosaving autosave) (self, log) = set_world_autosaving net autosave self log"
| "exec net (Set_group_update group0 parent chatcolor permissions) (self, log) =
     set_group_update net group0 parent chatcolor permissions self log"

fun run :: "network \<Rightarrow> call list \<Rightarrow> TShock \<times> string list \<Rightarrow> TShock \<times> string list" where
  "run net [] st = st"
| "run net (c # cs) st = run net cs (snd (exec net c st))"

text \<open>
  A successful authentication call is a \<^verbatim>\<open>get_token\<close> that returns instead of
  raising.  \<open>no_auth\<close> says that a run has none.
\<close>

fun authenticates :: "network \<Rightarrow> call \<Rightarrow> TShock \<times> string list \<Rightarrow> bool" where
  "authenticates net (Get_token user password) st =
     (case fst (exec net (Get_token user password) st) of Inl e \<Rightarrow> False | Inr v \<Rightarrow> True)"
| "authenticates net c st = False"

fun no_auth :: "network \<Rightarrow> call list \<Rightarrow> TShock \<times> string list \<Rightarrow> bool" where
  "no_auth net [] st = True"
| "no_auth net (c # cs) st =
     (if authenticates net c st then False else no_auth net cs (snd (exec net c st)))"

text \<open>
  Reading a URL as its receiver does: the query component is the one \<^verbatim>\<open>urlsplit\<close>
  finds, between the first question mark and the fragment that starts at the first
  \<^verbatim>\<open>#\<close>; its parameters are separated by \<^verbatim>\<open>&\<close>, and name and value of a parameter by
  its first \<^verbatim>\<open>=\<close>.  A URL carries the token \<open>t\<close> when the \<^verbatim>\<open>token\<close> parameter of its
  query component is \<^verbatim>\<open>str(t)\<close> as \<^verbatim>\<open>urlencode\<close> quotes it; for the empty token that
  is the empty text.
\<close>

definition url_query :: "string \<Rightarrow> exc + string" where
  "url_query url =
     (case urlsplit url [] of
        Inl e \<Rightarrow> Inl e
      | Inr (scheme, netloc, path, query, fragment) \<Rightarrow> Inr query)"

definition query_pairs :: "string \<Rightarrow> (string \<times> string) list" where
  "query_pairs query = map (split1 CHR ''='') (split_all CHR ''&'' query)"

definition carries_token :: "pyval \<Rightarrow> string \<Rightarrow> bool" where
  "carries_token t url =
     (case url_query url of
        Inl e \<Rightarrow> False
      | Inr query \<Rightarrow> map_of (query_pairs query) ''token'' = Some (quote_plus (py_str t)))"

text \<open>
  What \<^verbatim>\<open>get_url\<close> writes after its own question mark is the text after the last
  question mark of the URL.  That text is the query component only when the part
  before it holds neither \<^verbatim>\<open>?\<close> nor \<^verbatim>\<open>#\<close>; \<open>appends_token\<close> speaks of the text
  written, not of the query component.
\<close>

definition appended_params :: "string \<Rightarrow> string" where
  "appended_params url = last (split_all CHR ''?'' url)"

definition appends_token :: "pyval \<Rightarrow> string \<Rightarrow> bool" where
  "appends_token t url =
     (map_of (query_pairs (appended_params url)) ''token'' = Some (quote_plus (py_str t)))"

subsection \<open>Servers used in the examples\<close>

definition json_server :: "pyval \<Rightarrow> network" where
  "json_server v log url = GetReturns (Response (Some v))"

definition not_json_server :: "network" where
  "not_json_server log url = GetReturns (Response None)"

definition unreachable_server :: "network" where
  "unreachable_server log url = GetRaises"

text \<open>A server that hands out the token \<^verbatim>\<open>abc\<close> for one user and password only.\<close>

definition demo_server :: "network" where
  "demo_server log url =
     (if url = ''http://1.2.3.4:7878/v2/token/create/secret?username=admin&token=''
      then GetReturns (Response (Some (PyDict [(''status'', PyStr ''200''), (''token'', PyStr ''abc'')])))
      else GetReturns (Response (Some (PyDict [(''status'', PyStr ''200'')]))))"

definition example_client :: "TShock" where
  "example_client = TShock_init (PyStr ''1.2.3.4'') (PyInt 7878)"

section \<open>Properties\<close>

subsection \<open>The validator \<^verbatim>\<open>_make_request\<close>\<close>

lemma make_request_log: "snd (make_request net url log) = log @ [url]"
  by (simp add: make_request_def split: get_result.splits option.splits sum.splits)

text \<open>
  C1.  When the decoded body is an envelope whose \<^verbatim>\<open>status\<close> is the string
  \<^verbatim>\<open>"200"\<close> or \<^verbatim>\<open>"400"\<close>, \<^verbatim>\<open>_make_request\<close> returns that very envelope and raises
  nothing; a \<^verbatim>\<open>"400"\<close> envelope is an ordinary result.
\<close>

theorem make_request_returns_envelope:
  assumes "net log url = GetReturns (Response (Some (PyDict kvs)))"
    and "map_of kvs ''status'' = Some (PyStr s)"
    and "s = ''200'' \<or> s = ''400''"
  shows "make_request net url log = (Inr (PyDict kvs), log @ [url])"
  using assms by (auto simp: make_request_def)

theorem make_request_returns_envelope_witness:
  "make_request (json_server (PyDict [(''status'', PyStr ''400''), (''response'', PyStr ''invalid group'')]))
     ''http://1.2.3.4:7878/status?token='' []
   = (Inr (PyDict [(''status'', PyStr ''400''), (''response'', PyStr ''invalid group'')]),
      [''http://1.2.3.4:7878/status?token=''])"
  using make_request_returns_envelope
    [of "json_server (PyDict [(''status'', PyStr ''400''), (''response'', PyStr ''invalid group'')])"
        "[]" "''http://1.2.3.4:7878/status?token=''"
        "[(''status'', PyStr ''400''), (''response'', PyStr ''invalid group'')]" "''400''"]
  by (simp add: json_server_def)

text \<open>
  When the envelope has a \<^verbatim>\<open>status\<close> other than \<^verbatim>\<open>"200"\<close>, \<^verbatim>\<open>"400"\<close> and \<^verbatim>\<open>"404"\<close>
  and also has an \<^verbatim>\<open>error\<close> field, \<^verbatim>\<open>_make_request\<close> raises \<open>ApiException\<close> with a
  message that holds \<^verbatim>\<open>str\<close> of the status and of the error field; for strings that
  is the text itself.
\<close>

lemma make_request_raises_api_error:
  assumes "net log url = GetReturns (Response (Some (PyDict kvs)))"
    and "map_of kvs ''status'' = Some status"
    and "status \<noteq> PyStr ''200''" and "status \<noteq> PyStr ''400''" and "status \<noteq> PyStr ''404''"
    and "map_of kvs ''error'' = Some err"
  shows "make_request net url log =
     (Inl (ApiException (''Error in request. Server returned status: '' @ py_str status
                           @ '' With error: '' @ py_str err)), log @ [url])"
  using assms by (auto simp: make_request_def)

lemma make_request_raises_api_error_example:
  "make_request (json_server (PyDict [(''status'', PyStr ''500''), (''error'', PyStr ''boom'')]))
     ''http://1.2.3.4:7878/status?token='' []
   = (Inl (ApiException ''Error in request. Server returned status: 500 With error: boom''),
      [''http://1.2.3.4:7878/status?token=''])"
  using make_request_raises_api_error
    [of "json_server (PyDict [(''status'', PyStr ''500''), (''error'', PyStr ''boom'')])"
        "[]" "''http://1.2.3.4:7878/status?token=''"
        "[(''status'', PyStr ''500''), (''error'', PyStr ''boom'')]" "PyStr ''500''" "PyStr ''boom''"]
  by (simp add: json_server_def)

text \<open>
  C2.  The claim asks for an \<open>ApiException\<close> on every envelope whose \<^verbatim>\<open>status\<close> is
  neither \<^verbatim>\<open>"200"\<close>, \<^verbatim>\<open>"400"\<close> nor \<^verbatim>\<open>"404"\<close>, as the docstring of \<^verbatim>\<open>_make_request\<close>
  does.  The code fails it on the envelope \<^verbatim>\<open>{"status": "500"}\<close>: the message is built
  from \<^verbatim>\<open>results["error"]\<close> without a check that the field is there, and the lookup
  raises \<^verbatim>\<open>KeyError\<close>.
\<close>

theorem make_request_missing_error_field:
  "fst (make_request (json_server (PyDict [(''status'', PyStr ''500'')]))
          ''http://1.2.3.4:7878/status?token='' []) = Inl KeyError"
  by (simp add: make_request_def json_server_def)

text \<open>
  C3.  When the envelope's \<^verbatim>\<open>status\<close> is the string \<^verbatim>\<open>"404"\<close>, \<^verbatim>\<open>_make_request\<close>
  raises the \<open>ApiException\<close> that says REST may be disabled, and returns nothing.
\<close>

theorem make_request_not_found:
  assumes "net log url = GetReturns (Response (Some (PyDict kvs)))"
    and "map_of kvs ''status'' = Some (PyStr ''404'')"
  shows "make_request net url log =
     (Inl (ApiException ''404 Error. Are you sure the server has REST enabled?''), log @ [url])"
  using assms by (simp add: make_request_def)

theorem make_request_not_found_witness:
  "make_request (json_server (PyDict [(''status'', PyStr ''404'')]))
     ''http://1.2.3.4:7878/status?token='' []
   = (Inl (ApiException ''404 Error. Are you sure the server has REST enabled?''),
      [''http://1.2.3.4:7878/status?token=''])"
  using make_request_not_found
    [of "json_server (PyDict [(''status'', PyStr ''404'')])" "[]"
        "''http://1.2.3.4:7878/status?token=''" "[(''status'', PyStr ''404'')]"]
  by (simp add: json_server_def)




subsection \<open>The URL builder \<^verbatim>\<open>get_url\<close>\<close>

text \<open>
  C5, as amended.  For host \<^verbatim>\<open>"1.2.3.4"\<close>, port \<^verbatim>\<open>7878\<close>, an empty token, the segments
  \<^verbatim>\<open>("v2", "server", "status")\<close> and the parameters \<^verbatim>\<open>{players: True}\<close>, the builder
  returns the URL below: the caller's parameters first, the token last, because
  \<^verbatim>\<open>kwargs['token'] = self.token\<close> adds the key at the end of the dict.
\<close>

theorem get_url_example:
  "get_url (RequestBuilder_init (PyStr ''1.2.3.4'') (PyInt 7878))
     [PyStr ''v2'', PyStr ''server'', PyStr ''status''] [(''players'', PyBool True)]
   = Inr ''http://1.2.3.4:7878/v2/server/status?players=True&token=''"
  by code_simp

text \<open>C5, as the claim states it, fails: the URL with the token first is not the one built.\<close>

theorem get_url_example_token_not_first:
  "get_url (RequestBuilder_init (PyStr ''1.2.3.4'') (PyInt 7878))
     [PyStr ''v2'', PyStr ''server'', PyStr ''status''] [(''players'', PyBool True)]
   \<noteq> Inr ''http://1.2.3.4:7878/v2/server/status?token=&players=True''"
  by code_simp

subsection \<open>Endpoint methods\<close>

text \<open>
  C7, as amended.  \<^verbatim>\<open>get_token_status\<close> returns \<^verbatim>\<open>False\<close> when \<^verbatim>\<open>_make_request\<close> raises
  an \<open>ApiException\<close> and \<^verbatim>\<open>True\<close> when it returns; any other exception of
  \<^verbatim>\<open>_make_request\<close> reaches the caller, since only \<open>ApiException\<close> is caught.
\<close>

theorem get_token_status_result:
  assumes "get_url (urls self) [PyStr ''tokentest''] [] = Inr url"
  shows "(fst (make_request net url log) = Inl (ApiException m)
            \<longrightarrow> fst (get_token_status net self log) = Inr (PyBool False))
       \<and> (fst (make_request net url log) = Inr v
            \<longrightarrow> fst (get_token_status net self log) = Inr (PyBool True))
       \<and> (fst (make_request net url log) = Inl e \<and> e \<in> {TypeError, KeyError, ValueError}
            \<longrightarrow> fst (get_token_status net self log) = Inl e)"
  using assms
  by (cases "make_request net url log") (auto simp: get_token_status_def request_def)

theorem get_token_status_result_witness:
  "(fst (make_request unreachable_server ''http://1.2.3.4:7878/tokentest?token='' [])
      = Inl (ApiException ''An error occurred in making the request to the server.'')
    \<and> fst (get_token_status unreachable_server example_client []) = Inr (PyBool False))
   \<and> (fst (make_request (json_server (PyDict [(''status'', PyStr ''200'')]))
              ''http://1.2.3.4:7878/tokentest?token='' []) = Inr (PyDict [(''status'', PyStr ''200'')])
    \<and> fst (get_token_status (json_server (PyDict [(''status'', PyStr ''200'')])) example_client [])
        = Inr (PyBool True))
   \<and> (fst (make_request not_json_server ''http://1.2.3.4:7878/tokentest?token='' []) = Inl ValueError
    \<and> fst (get_token_status not_json_server example_client []) = Inl ValueError)"
proof -
  have u: "get_url (urls example_client) [PyStr ''tokentest''] []
             = Inr ''http://1.2.3.4:7878/tokentest?token=''"
    by code_simp
  have a: "fst (make_request unreachable_server ''http://1.2.3.4:7878/tokentest?token='' [])
      = Inl (ApiException ''An error occurred in making the request to the server.'')"
    by (simp add: make_request_def unreachable_server_def)
  have b: "fst (make_request (json_server (PyDict [(''status'', PyStr ''200'')]))
              ''http://1.2.3.4:7878/tokentest?token='' []) = Inr (PyDict [(''status'', PyStr ''200'')])"
    by (simp add: make_request_def json_server_def)
  have c: "fst (make_request not_json_server ''http://1.2.3.4:7878/tokentest?token='' []) = Inl ValueError"
    by (simp add: make_request_def not_json_server_def)
  from get_token_status_result [OF u, of unreachable_server "[]"
         "''An error occurred in making the request to the server.''"] a
  have a': "fst (get_token_status unreachable_server example_client []) = Inr (PyBool False)"
    by blast
  from get_token_status_result [OF u, of "json_server (PyDict [(''status'', PyStr ''200'')])" "[]" _
         "PyDict [(''status'', PyStr ''200'')]"] b
  have b': "fst (get_token_status (json_server (PyDict [(''status'', PyStr ''200'')])) example_client [])
        = Inr (PyBool True)"
    by blast
  from get_token_status_result [OF u, of not_json_server "[]" _ _ ValueError] c
  have c': "fst (get_token_status not_json_server example_client []) = Inl ValueError"
    by blast
  from a a' b b' c c' show ?thesis by blast
qed

text \<open>
  C7, as the claim states it, fails: on a body that is not JSON \<^verbatim>\<open>_make_request\<close>
  raises \<^verbatim>\<open>ValueError\<close>, and \<^verbatim>\<open>get_token_status\<close> raises it too instead of returning
  \<^verbatim>\<open>False\<close>.
\<close>

theorem get_token_status_propagates:
  "fst (make_request not_json_server ''http://1.2.3.4:7878/tokentest?token='' []) = Inl ValueError
   \<and> fst (get_token_status not_json_server example_client []) = Inl ValueError"
  by code_simp

text \<open>
  C8.  For either boolean, \<^verbatim>\<open>set_world_bloodmoon\<close> and \<^verbatim>\<open>set_world_autosaving\<close> raise
  \<^verbatim>\<open>TypeError\<close> in \<^verbatim>\<open>"/".join(args)\<close>; the client is unchanged and no request has been
  added to the list of requests.
\<close>

theorem set_world_methods_raise_TypeError:
  "set_world_bloodmoon net b self log = (Inl TypeError, self, log)
   \<and> set_world_autosaving net b self log = (Inl TypeError, self, log)"
  by (simp add: set_world_bloodmoon_def set_world_autosaving_def discarding_def request_def
        get_url_def str_join_def)

theorem set_world_methods_raise_TypeError_witness:
  "set_world_bloodmoon demo_server True example_client [] = (Inl TypeError, example_client, [])
   \<and> set_world_autosaving demo_server True example_client [] = (Inl TypeError, example_client, [])"
  using set_world_methods_raise_TypeError [of demo_server True example_client "[]"] by simp

text \<open>
  C9 fails for \<^verbatim>\<open>do_delete_ban\<close>: the method passes the enumeration member, and the URL
  carries \<^verbatim>\<open>str\<close> of the member, \<^verbatim>\<open>BanLookupType.Name\<close>, not its value \<^verbatim>\<open>name\<close>.
\<close>

theorem do_delete_ban_sends_member_name:
  "snd (snd (do_delete_ban net BanLookupType_Name ''x'' example_client []))
   = [''http://1.2.3.4:7878/v2/bans/destroy?ban=x&type=BanLookupType.Name&token='']"
proof -
  have "get_url (urls example_client) [PyStr ''v2'', PyStr ''bans'', PyStr ''destroy'']
          [(''ban'', PyStr ''x''), (''type'', PyBanLookup BanLookupType_Name)]
        = Inr ''http://1.2.3.4:7878/v2/bans/destroy?ban=x&type=BanLookupType.Name&token=''"
    by code_simp
  then show ?thesis
    by (simp add: do_delete_ban_def discarding_def request_def make_request_log)
qed

text \<open>The three sibling methods pass the member's \<^verbatim>\<open>.value\<close>.\<close>

lemma sibling_methods_send_value:
  "snd (snd (get_user_info net UserLookupType_ID ''7'' example_client []))
     = [''http://1.2.3.4:7878/v2/users/read?type=id&user=7&token='']"
  "snd (snd (get_ban_information net BanLookupType_IP ''9.9.9.9'' example_client []))
     = [''http://1.2.3.4:7878/v2/bans/read?type=ip&ban=9.9.9.9&token='']"
  "snd (snd (set_update_user net ''bob'' UserLookupType_Name ''pw'' ''admins'' example_client []))
     = [''http://1.2.3.4:7878/v2/users/update?user=bob&type=name&password=pw&group=admins&token='']"
proof -
  have "get_url (urls example_client) [PyStr ''v2'', PyStr ''users'', PyStr ''read'']
          [(''type'', PyStr (UserLookupType_value UserLookupType_ID)), (''user'', PyStr ''7'')]
        = Inr ''http://1.2.3.4:7878/v2/users/read?type=id&user=7&token=''"
    by code_simp
  then show "snd (snd (get_user_info net UserLookupType_ID ''7'' example_client []))
     = [''http://1.2.3.4:7878/v2/users/read?type=id&user=7&token='']"
    by (simp add: get_user_info_def returning_def request_def make_request_log)
  have "get_url (urls example_client) [PyStr ''v2'', PyStr ''bans'', PyStr ''read'']
          [(''type'', PyStr (BanLookupType_value BanLookupType_IP)), (''ban'', PyStr ''9.9.9.9'')]
        = Inr ''http://1.2.3.4:7878/v2/bans/read?type=ip&ban=9.9.9.9&token=''"
    by code_simp
  then show "snd (snd (get_ban_information net BanLookupType_IP ''9.9.9.9'' example_client []))
     = [''http://1.2.3.4:7878/v2/bans/read?type=ip&ban=9.9.9.9&token='']"
    by (simp add: get_ban_information_def returning_def request_def make_request_log)
  have "get_url (urls example_client) [PyStr ''v2'', PyStr ''users'', PyStr ''update'']
          [(''user'', PyStr ''bob''), (''type'', PyStr (UserLookupType_value UserLookupType_Name)),
           (''password'', PyStr ''pw''), (''group'', PyStr ''admins'')]
        = Inr ''http://1.2.3.4:7878/v2/users/update?user=bob&type=name&password=pw&group=admins&token=''"
    by code_simp
  then show "snd (snd (set_update_user net ''bob'' UserLookupType_Name ''pw'' ''admins'' example_client []))
     = [''http://1.2.3.4:7878/v2/users/update?user=bob&type=name&password=pw&group=admins&token='']"
    by (simp add: set_update_user_def discarding_def request_def make_request_log)
qed

text \<open>
  C10.  Whatever \<^verbatim>\<open>do_destroy_token\<close> returns or raises, the client afterwards is the
  client before: in particular the token of the URL builder and the \<open>token\<close> field of
  the client hold the values they held before the call.
\<close>

theorem do_destroy_token_keeps_token:
  "fst (snd (do_destroy_token net self log)) = self
   \<and> rb_token (urls (fst (snd (do_destroy_token net self log)))) = rb_token (urls self)
   \<and> token (fst (snd (do_destroy_token net self log))) = token self"
  by (simp add: do_destroy_token_def discarding_def)

theorem do_destroy_token_keeps_token_witness:
  "rb_token (urls (fst (snd (do_destroy_token (json_server (PyDict [(''status'', PyStr ''200'')]))
       (example_client\<lparr>urls := (urls example_client)\<lparr>rb_token := PyStr ''abc''\<rparr>\<rparr>) [])))) = PyStr ''abc''"
  using do_destroy_token_keeps_token [of "json_server (PyDict [(''status'', PyStr ''200'')])"
      "example_client\<lparr>urls := (urls example_client)\<lparr>rb_token := PyStr ''abc''\<rparr>\<rparr>" "[]"]
  by simp

subsection \<open>The parameters that \<^verbatim>\<open>get_url\<close> appends\<close>

lemma split_all_nonempty: "split_all c s \<noteq> []"
  by (induction s) (auto split: list.splits)

lemma split_all_absent: "c \<notin> set s \<Longrightarrow> split_all c s = [s]"
  by (induction s) auto

lemma split_all_two: "c \<in> set s \<Longrightarrow> \<exists>r r' rs. split_all c s = r # r' # rs"
proof (induction s)
  case Nil
  then show ?case by simp
next
  case (Cons x xs)
  show ?case
  proof (cases "x = c")
    case True
    obtain r rs where "split_all c xs = r # rs"
      using split_all_nonempty [of c xs] by (cases "split_all c xs") auto
    with True show ?thesis by simp
  next
    case False
    with Cons.prems have "c \<in> set xs" by simp
    then obtain r r' rs where "split_all c xs = r # r' # rs"
      using Cons.IH by blast
    with False show ?thesis by simp
  qed
qed

lemma last_split_all: "c \<notin> set ys \<Longrightarrow> last (split_all c (xs @ c # ys)) = ys"
proof (induction xs)
  case Nil
  then show ?case by (simp add: split_all_absent)
next
  case (Cons x xs)
  have "c \<in> set (xs @ c # ys)" by simp
  then obtain r r' rs where eq: "split_all c (xs @ c # ys) = r # r' # rs"
    using split_all_two by blast
  with Cons show ?case by simp
qed

lemma split_all_prefix: "c \<notin> set x \<Longrightarrow> split_all c (x @ c # rest) = x # split_all c rest"
  by (induction x) auto

lemma split_all_join:
  "parts \<noteq> [] \<Longrightarrow> list_all (\<lambda>p. c \<notin> set p) parts \<Longrightarrow> split_all c (join [c] parts) = parts"
proof (induction "[c]" parts rule: join.induct)
  case 1
  then show ?case by simp
next
  case (2 x)
  then show ?case by (simp add: split_all_absent)
next
  case (3 x y ys)
  then show ?case by (simp add: split_all_prefix)
qed

lemma split1_at: "c \<notin> set k \<Longrightarrow> split1 c (k @ c # v) = (k, v)"
  by (induction k) (auto simp: split1_def)

lemma set_join: "set (join sep xs) \<subseteq> set sep \<union> \<Union> (set ` set xs)"
  by (induction sep xs rule: join.induct) auto

lemma hex_upper_in: "hex_upper n \<in> set ''0123456789ABCDEF''"
proof -
  have "n mod 16 < length ''0123456789ABCDEF''" by simp
  then show ?thesis unfolding hex_upper_def by (rule nth_mem)
qed

lemma quote_byte_chars:
  "c \<in> set (quote_byte safe b) \<Longrightarrow> c \<in> set always_safe \<union> set safe \<union> set ''%0123456789ABCDEF''"
  using hex_upper_in [of "b div 16"] hex_upper_in [of "b mod 16"]
  by (auto simp: quote_byte_def split: if_splits)

lemma quote_chars:
  "c \<in> set (quote s safe) \<Longrightarrow> c \<in> set always_safe \<union> set safe \<union> set ''%0123456789ABCDEF''"
  unfolding quote_def using quote_byte_chars by fastforce

lemma quote_plus_chars:
  "c \<in> set (quote_plus s) \<Longrightarrow> c \<in> set always_safe \<union> set ''+%0123456789ABCDEF''"
proof (cases "CHR '' '' \<in> set s")
  case False
  assume "c \<in> set (quote_plus s)"
  with False have "c \<in> set (quote s [])" by (simp add: quote_plus_def)
  from quote_chars [OF this] show ?thesis by auto
next
  case True
  assume "c \<in> set (quote_plus s)"
  with True obtain d where d: "d \<in> set (quote s '' '')" and c: "c = (if d = CHR '' '' then CHR ''+'' else d)"
    by (auto simp: quote_plus_def)
  from quote_chars [OF d] c show ?thesis by (auto split: if_splits)
qed

lemma quote_plus_no_delims:
  "CHR ''?'' \<notin> set (quote_plus s)" "CHR ''&'' \<notin> set (quote_plus s)" "CHR ''='' \<notin> set (quote_plus s)"
  using quote_plus_chars [of "CHR ''?''" s] quote_plus_chars [of "CHR ''&''" s]
    quote_plus_chars [of "CHR ''=''" s]
  by (auto simp: always_safe_def)


lemma quote_Cons: "quote (c # k) safe = concat (map (quote_byte safe) (utf8 c)) @ quote k safe"
  by (simp add: quote_def)

lemma enc_cases:
  "concat (map (quote_byte safe) (utf8 c)) = [c]
   \<or> (\<exists>rest. concat (map (quote_byte safe) (utf8 c)) = CHR ''%'' # rest)"
  by (auto simp: utf8_def quote_byte_def Let_def)

lemma quote_plain: "quote k safe = r \<Longrightarrow> CHR ''%'' \<notin> set r \<Longrightarrow> k = r"
proof (induction k arbitrary: r)
  case Nil
  then show ?case by (simp add: quote_def)
next
  case (Cons c k)
  from Cons.prems have r: "r = concat (map (quote_byte safe) (utf8 c)) @ quote k safe"
    by (simp add: quote_Cons)
  have e: "concat (map (quote_byte safe) (utf8 c)) = [c]"
  proof (rule disjE [OF enc_cases [of safe c]])
    assume "concat (map (quote_byte safe) (utf8 c)) = [c]"
    then show ?thesis .
  next
    assume "\<exists>rest. concat (map (quote_byte safe) (utf8 c)) = CHR ''%'' # rest"
    then obtain rest where "concat (map (quote_byte safe) (utf8 c)) = CHR ''%'' # rest" ..
    with r have "CHR ''%'' \<in> set r" by simp
    with Cons.prems(2) show ?thesis by contradiction
  qed
  from r Cons.prems(2) have "CHR ''%'' \<notin> set (quote k safe)" by simp
  with Cons.IH have "k = quote k safe" by blast
  with r e show ?case by simp
qed

lemma space_quoted: "CHR '' '' \<in> set k \<Longrightarrow> CHR '' '' \<in> set (quote k '' '')"
proof (induction k)
  case Nil
  then show ?case by simp
next
  case (Cons c k)
  show ?case
  proof (cases "c = CHR '' ''")
    case True
    have "concat (map (quote_byte '' '') (utf8 CHR '' '')) = '' ''"
      by code_simp
    with True show ?thesis by (simp add: quote_Cons)
  next
    case False
    with Cons show ?thesis by (simp add: quote_Cons)
  qed
qed

lemma quote_plus_plain:
  assumes "quote_plus k = r" and "CHR ''%'' \<notin> set r" and "CHR ''+'' \<notin> set r"
  shows "k = r"
proof (cases "CHR '' '' \<in> set k")
  case False
  with assms(1) have "quote k [] = r" by (simp add: quote_plus_def)
  with assms(2) show ?thesis by (blast intro: quote_plain)
next
  case True
  then have "CHR '' '' \<in> set (quote k '' '')" by (rule space_quoted)
  with True assms(1) have "CHR ''+'' \<in> set r" by (force simp: quote_plus_def)
  with assms(3) show ?thesis by simp
qed

lemma quote_plus_token: "quote_plus ''token'' = ''token''"
  by code_simp

lemma quote_plus_is_token: "quote_plus k = ''token'' \<Longrightarrow> k = ''token''"
  by (rule quote_plus_plain) simp_all

lemma map_of_encoded_token:
  "map_of (map (\<lambda>kv. (quote_plus (fst kv), g (snd kv))) (setitem kwargs ''token'' t)) ''token''
   = Some (g t)"
  using quote_plus_is_token by (induction kwargs) (auto simp: quote_plus_token)

lemma setitem_nonempty: "setitem kwargs k v \<noteq> []"
  by (cases kwargs) (auto split: if_splits)

lemma urlencode_no_question: "CHR ''?'' \<notin> set (urlencode q)"
proof -
  have "set (urlencode q)
        \<subseteq> set ''&'' \<union> \<Union> (set ` set (map (\<lambda>kv. quote_plus (fst kv) @ ''='' @ quote_plus (py_str (snd kv))) q))"
    unfolding urlencode_def by (rule set_join)
  moreover have "CHR ''?'' \<notin> set ''&'' \<union> \<Union> (set ` set (map (\<lambda>kv. quote_plus (fst kv) @ ''='' @ quote_plus (py_str (snd kv))) q))"
    by (auto simp: quote_plus_no_delims)
  ultimately show ?thesis by blast
qed

lemma appended_params_built: "appended_params (u @ ''?'' @ urlencode q) = urlencode q"
  using last_split_all [OF urlencode_no_question, of u q] by (simp add: appended_params_def)

lemma query_pairs_urlencode:
  assumes "q \<noteq> []"
  shows "query_pairs (urlencode q)
         = map (\<lambda>kv. (quote_plus (fst kv), quote_plus (py_str (snd kv)))) q"
proof -
  let ?parts = "map (\<lambda>kv. quote_plus (fst kv) @ ''='' @ quote_plus (py_str (snd kv))) q"
  have "list_all (\<lambda>p. CHR ''&'' \<notin> set p) ?parts"
    using quote_plus_no_delims(2) by (simp add: list_all_iff)
  moreover have "?parts \<noteq> []" using assms by simp
  ultimately have s: "split_all CHR ''&'' (urlencode q) = ?parts"
    unfolding urlencode_def using split_all_join [of ?parts "CHR ''&''"] by simp
  have "map (split1 CHR ''='') ?parts
        = map (\<lambda>kv. (quote_plus (fst kv), quote_plus (py_str (snd kv)))) q"
    using quote_plus_no_delims(3) by (simp add: split1_at)
  with s show ?thesis by (simp add: query_pairs_def)
qed

lemma get_url_appends:
  assumes "get_url rb args kwargs = Inr u"
  shows "appends_token (rb_token rb) u"
proof -
  from assms obtain u0 where
    u: "u = u0 @ ''?'' @ urlencode (setitem kwargs ''token'' (rb_token rb))"
    by (auto simp: get_url_def Let_def split: sum.splits)
  show ?thesis
    unfolding u appends_token_def
    using map_of_encoded_token [of "\<lambda>v. quote_plus (py_str v)" kwargs "rb_token rb"]
    by (simp only: appended_params_built query_pairs_urlencode [OF setitem_nonempty])
qed

subsection \<open>The token over a sequence of calls\<close>

lemma request_log:
  "snd (request net self log args kwargs) = log
   \<or> (\<exists>url. snd (request net self log args kwargs) = log @ [url]
          \<and> appends_token (rb_token (urls self)) url)"
  by (cases "get_url (urls self) args kwargs")
     (auto simp: request_def make_request_log get_url_appends)

lemma returning_parts [simp]:
  "fst (snd (returning self r)) = self" "snd (snd (returning self r)) = snd r"
  by (simp_all add: returning_def)

lemma discarding_parts [simp]:
  "fst (snd (discarding self r)) = self" "snd (snd (discarding self r)) = snd r"
  by (simp_all add: discarding_def)

lemma get_token_log:
  "snd (snd (get_token net user password self log))
   = snd (request net self log [PyStr ''v2'', PyStr ''token'', PyStr ''create'', PyStr password]
            [(''username'', PyStr user)])"
  by (simp add: get_token_def split: prod.splits sum.splits)

lemma get_token_status_parts:
  "fst (snd (get_token_status net self log)) = self"
  "snd (snd (get_token_status net self log)) = snd (request net self log [PyStr ''tokentest''] [])"
  by (simp_all add: get_token_status_def split: prod.splits sum.splits exc.splits)

lemma get_server_status_v2_parts:
  "fst (snd (get_server_status_v2 net players rules filters self log)) = self"
  "snd (snd (get_server_status_v2 net players rules filters self log)) = log
   \<or> snd (snd (get_server_status_v2 net players rules filters self log))
      = snd (request net self log [PyStr ''v2'', PyStr ''server'', PyStr ''status'']
          ([(''players'', PyBool players), (''rules'', PyBool rules)]
             @ (case filters of None \<Rightarrow> [] | Some d \<Rightarrow> d)))"
  by (simp_all add: get_server_status_v2_def Let_def)

lemmas method_defs =
  get_status_def get_active_user_list_def get_user_info_def get_ban_information_def
  get_ban_list_def get_player_list_def get_player_info_def get_world_info_def get_group_list_def
  get_group_info_def get_server_motd_def get_server_rules_def do_destroy_token_def
  do_destroy_all_tokens_def do_server_broadcast_def do_server_reload_def do_server_off_def
  do_server_restart_def do_server_rawcmd_v2_def do_server_rawcmd_v3_def do_create_ban_def
  do_delete_ban_def do_world_meteor_def do_world_save_def do_world_butcher_def do_kick_player_def
  do_ban_player_def do_kill_player_def do_mute_player_def do_unmute_player_def do_group_delete_def
  do_group_create_def set_update_user_def set_world_bloodmoon_def set_world_autosaving_def
  set_group_update_def

lemma exec_log:
  "snd (snd (exec net c (self, log))) = log
   \<or> (\<exists>url. snd (snd (exec net c (self, log))) = log @ [url]
          \<and> appends_token (rb_token (urls self)) url)"
proof (cases c)
  case (Get_token user password)
  then show ?thesis using request_log by (simp add: get_token_log)
next
  case Get_token_status
  then show ?thesis using request_log by (simp add: get_token_status_parts)
next
  case (Get_server_status_v2 players rules filters)
  then show ?thesis
    using request_log [of net self log "[PyStr ''v2'', PyStr ''server'', PyStr ''status'']"
             "[(''players'', PyBool players), (''rules'', PyBool rules)]
                @ (case filters of None \<Rightarrow> [] | Some d \<Rightarrow> d)"]
          get_server_status_v2_parts(2) [of net players rules filters self log]
    by auto
qed (simp_all add: method_defs Let_def request_log)

lemma exec_self:
  "\<not> authenticates net c (self, log) \<Longrightarrow> fst (snd (exec net c (self, log))) = self"
proof (cases c)
  case (Get_token user password)
  assume "\<not> authenticates net c (self, log)"
  with Get_token show ?thesis
    by (auto simp: get_token_def split: prod.splits sum.splits)
qed (simp_all add: method_defs Let_def get_token_status_parts get_server_status_v2_parts)


lemma run_no_auth:
  "no_auth net cs (self, log) \<Longrightarrow>
   \<exists>new. run net cs (self, log) = (self, log @ new)
         \<and> list_all (appends_token (rb_token (urls self))) new"
proof (induction cs arbitrary: log)
  case Nil
  then show ?case by simp
next
  case (Cons c cs)
  obtain r self' log' where ex: "exec net c (self, log) = (r, self', log')"
    by (cases "exec net c (self, log)") auto
  from Cons.prems have na: "\<not> authenticates net c (self, log)"
    and rest: "no_auth net cs (snd (exec net c (self, log)))"
    by (auto split: if_splits)
  from exec_self [OF na] ex have self': "self' = self" by simp
  from exec_log [of net c self log] ex
  obtain step where step: "log' = log @ step" "list_all (appends_token (rb_token (urls self))) step"
    by (elim disjE exE) (force, force)
  from rest ex self' have "no_auth net cs (self, log')" by simp
  from Cons.IH [OF this] obtain new where
    new: "run net cs (self, log') = (self, log' @ new)"
         "list_all (appends_token (rb_token (urls self))) new"
    by blast
  from ex self' new step have "run net (c # cs) (self, log) = (self, log @ (step @ new))"
    by simp
  moreover from step new have "list_all (appends_token (rb_token (urls self))) (step @ new)"
    by simp
  ultimately show ?case by blast
qed

lemma get_token_success:
  assumes "get_token net user password self log = (Inr r, self1, log1)"
  shows "\<exists>url results. log1 = log @ [url]
            \<and> net log url = GetReturns (Response (Some results))
            \<and> getitem results ''token'' = Inr (rb_token (urls self1))"
proof -
  let ?args = "[PyStr ''v2'', PyStr ''token'', PyStr ''create'', PyStr password]"
  let ?kw = "[(''username'', PyStr user)]"
  from assms obtain results where
    rq: "request net self log ?args ?kw = (Inr results, log1)"
    and tk: "getitem results ''token'' = Inr (rb_token (urls self1))"
    by (auto simp: get_token_def split: prod.splits sum.splits)
  from rq obtain url where mr: "make_request net url log = (Inr results, log1)"
    by (auto simp: request_def split: sum.splits)
  from mr make_request_log [of net url log] have l: "log1 = log @ [url]" by simp
  from mr have "net log url = GetReturns (Response (Some results))"
    by (auto simp: make_request_def split: get_result.splits option.splits sum.splits if_splits
             intro: response.expand)
  with l tk show ?thesis by blast
qed

text \<open>
  What the client does achieve.  As long as no \<^verbatim>\<open>get_token\<close> call has succeeded, the
  parameters appended to every requested URL hold the empty token.  When a
  \<^verbatim>\<open>get_token\<close> call succeeds, the token it stores is the \<^verbatim>\<open>token\<close> field of the
  envelope the server returned, and the parameters appended to every URL requested by
  the calls that follow hold that token, for as long as no later \<^verbatim>\<open>get_token\<close> call
  succeeds; the stored token does not change meanwhile.
\<close>

lemma token_appended_to_every_url:
  "(no_auth net cs (TShock_init ip0 port0, []) \<longrightarrow>
      list_all (appends_token (PyStr [])) (snd (run net cs (TShock_init ip0 port0, []))))
   \<and> (get_token net user password self log = (Inr r, self1, log1)
        \<and> no_auth net cs' (self1, log1) \<longrightarrow>
      (\<exists>url results. log1 = log @ [url]
          \<and> net log url = GetReturns (Response (Some results))
          \<and> getitem results ''token'' = Inr (rb_token (urls self1)))
      \<and> fst (run net cs' (self1, log1)) = self1
      \<and> list_all (appends_token (rb_token (urls self1)))
            (drop (length log1) (snd (run net cs' (self1, log1)))))"
proof (intro conjI impI)
  assume "no_auth net cs (TShock_init ip0 port0, [])"
  from run_no_auth [OF this]
  show "list_all (appends_token (PyStr [])) (snd (run net cs (TShock_init ip0 port0, [])))"
    by (auto simp: TShock_init_def RequestBuilder_init_def)
next
  assume a: "get_token net user password self log = (Inr r, self1, log1)
             \<and> no_auth net cs' (self1, log1)"
  then show "\<exists>url results. log1 = log @ [url]
          \<and> net log url = GetReturns (Response (Some results))
          \<and> getitem results ''token'' = Inr (rb_token (urls self1))"
    using get_token_success by blast
  from a run_no_auth [of net cs' self1 log1] obtain new where
    new: "run net cs' (self1, log1) = (self1, log1 @ new)"
         "list_all (appends_token (rb_token (urls self1))) new"
    by blast
  from new show "fst (run net cs' (self1, log1)) = self1" by simp
  from new show "list_all (appends_token (rb_token (urls self1)))
            (drop (length log1) (snd (run net cs' (self1, log1))))" by simp
qed

lemma token_appended_to_every_url_example:
  "no_auth demo_server [Get_status, Get_token ''admin'' ''wrong'', Set_world_bloodmoon True]
     (TShock_init (PyStr ''1.2.3.4'') (PyInt 7878), [])
   \<and> list_all (appends_token (PyStr []))
       (snd (run demo_server [Get_status, Get_token ''admin'' ''wrong'', Set_world_bloodmoon True]
          (TShock_init (PyStr ''1.2.3.4'') (PyInt 7878), [])))
   \<and> get_token demo_server ''admin'' ''secret'' example_client []
       = (Inr PyNone,
          \<lparr>urls = \<lparr>rb_ip = PyStr ''1.2.3.4'', rb_post = PyInt 7878, rb_token = PyStr ''abc''\<rparr>,
           ip = PyStr ''1.2.3.4'', port = PyInt 7878, token = []\<rparr>,
          [''http://1.2.3.4:7878/v2/token/create/secret?username=admin&token=''])
   \<and> no_auth demo_server [Get_player_list, Get_token ''admin'' ''wrong'', Do_destroy_token]
       (\<lparr>urls = \<lparr>rb_ip = PyStr ''1.2.3.4'', rb_post = PyInt 7878, rb_token = PyStr ''abc''\<rparr>,
         ip = PyStr ''1.2.3.4'', port = PyInt 7878, token = []\<rparr>,
        [''http://1.2.3.4:7878/v2/token/create/secret?username=admin&token=''])
   \<and> list_all (appends_token (PyStr ''abc''))
       (drop 1 (snd (run demo_server [Get_player_list, Get_token ''admin'' ''wrong'', Do_destroy_token]
          (\<lparr>urls = \<lparr>rb_ip = PyStr ''1.2.3.4'', rb_post = PyInt 7878, rb_token = PyStr ''abc''\<rparr>,
            ip = PyStr ''1.2.3.4'', port = PyInt 7878, token = []\<rparr>,
           [''http://1.2.3.4:7878/v2/token/create/secret?username=admin&token='']))))"
proof -
  let ?cs = "[Get_status, Get_token ''admin'' ''wrong'', Set_world_bloodmoon True]"
  let ?cs' = "[Get_player_list, Get_token ''admin'' ''wrong'', Do_destroy_token]"
  let ?s1 = "\<lparr>urls = \<lparr>rb_ip = PyStr ''1.2.3.4'', rb_post = PyInt 7878, rb_token = PyStr ''abc''\<rparr>,
           ip = PyStr ''1.2.3.4'', port = PyInt 7878, token = []\<rparr>"
  let ?l1 = "[''http://1.2.3.4:7878/v2/token/create/secret?username=admin&token='']"
  have h1: "no_auth demo_server ?cs (TShock_init (PyStr ''1.2.3.4'') (PyInt 7878), [])"
    by code_simp
  have h2: "get_token demo_server ''admin'' ''secret'' example_client [] = (Inr PyNone, ?s1, ?l1)"
    by code_simp
  have h3: "no_auth demo_server ?cs' (?s1, ?l1)"
    by code_simp
  from token_appended_to_every_url [of demo_server ?cs "PyStr ''1.2.3.4''" "PyInt 7878"
        "''admin''" "''secret''" example_client "[]" PyNone ?s1 ?l1 ?cs'] h1 h2 h3
  show ?thesis by simp
qed

text \<open>
  C4.  The claim asks that every URL built carries the query parameter \<^verbatim>\<open>token\<close>, and
  the class docstring says that all requests pass the token.  The code fails it: path
  segments are written into the URL unquoted, unlike the query parameters.  For
  \<^verbatim>\<open>get_token("admin", "p#x")\<close> on a fresh client the URL requested is the one below;
  its fragment starts at the \<^verbatim>\<open>#\<close> of the password, its query component is empty, and
  it carries no token parameter.
\<close>

theorem get_token_url_without_token:
  "snd (snd (get_token net ''admin'' ''p#x'' example_client []))
     = [''http://1.2.3.4:7878/v2/token/create/p#x?username=admin&token='']
   \<and> urlsplit ''http://1.2.3.4:7878/v2/token/create/p#x?username=admin&token='' []
     = Inr (''http'', ''1.2.3.4:7878'', ''/v2/token/create/p'', [], ''x?username=admin&token='')
   \<and> \<not> carries_token (PyStr []) ''http://1.2.3.4:7878/v2/token/create/p#x?username=admin&token=''"
proof -
  have u: "get_url (urls example_client)
             [PyStr ''v2'', PyStr ''token'', PyStr ''create'', PyStr ''p#x'']
             [(''username'', PyStr ''admin'')]
           = Inr ''http://1.2.3.4:7878/v2/token/create/p#x?username=admin&token=''"
    by code_simp
  have l: "snd (snd (get_token net ''admin'' ''p#x'' example_client []))
     = [''http://1.2.3.4:7878/v2/token/create/p#x?username=admin&token='']"
    by (simp add: get_token_log request_def u make_request_log)
  have q: "urlsplit ''http://1.2.3.4:7878/v2/token/create/p#x?username=admin&token='' []
     = Inr (''http'', ''1.2.3.4:7878'', ''/v2/token/create/p'', [], ''x?username=admin&token='')"
    by code_simp
  have c: "\<not> carries_token (PyStr []) ''http://1.2.3.4:7878/v2/token/create/p#x?username=admin&token=''"
    by code_simp
  from l q c show ?thesis by blast
qed

text \<open>
  The same happens after authentication when the stored token holds a \<^verbatim>\<open>#\<close>:
  \<^verbatim>\<open>do_destroy_token\<close> writes it into the path.
\<close>

lemma do_destroy_token_url_without_token:
  "snd (snd (do_destroy_token net
       (example_client\<lparr>urls := (urls example_client)\<lparr>rb_token := PyStr ''a#b''\<rparr>\<rparr>) []))
     = [''http://1.2.3.4:7878/token/destroy/a#b?token=a%23b'']
   \<and> \<not> carries_token (PyStr ''a#b'') ''http://1.2.3.4:7878/token/destroy/a#b?token=a%23b''"
proof -
  have u: "get_url (urls (example_client\<lparr>urls := (urls example_client)\<lparr>rb_token := PyStr ''a#b''\<rparr>\<rparr>))
             [PyStr ''token'', PyStr ''destroy'', PyStr ''a#b''] []
           = Inr ''http://1.2.3.4:7878/token/destroy/a#b?token=a%23b''"
    by code_simp
  have l: "snd (snd (do_destroy_token net
       (example_client\<lparr>urls := (urls example_client)\<lparr>rb_token := PyStr ''a#b''\<rparr>\<rparr>) []))
     = [''http://1.2.3.4:7878/token/destroy/a#b?token=a%23b'']"
    using u by (simp add: do_destroy_token_def request_def make_request_log)
  have c: "\<not> carries_token (PyStr ''a#b'') ''http://1.2.3.4:7878/token/destroy/a#b?token=a%23b''"
    by code_simp
  from l c show ?thesis by blast
qed

end
